theory Spec2Isabelle
  imports Main "HOL-Library.Word" "HOL-Library.Signed_Division"
begin

unbundle bit_operations_syntax

section \<open>The OB-6 driver (OB6.cpp): data model\<close>

type_synonym uint8 = "8 word"

text \<open>
  A MIDI message as OB6.cpp looks at it: either a system-exclusive message, of which
  \<open>getSysExData\<close> yields the bytes between the two framing bytes, or something else.
  \<open>MidiHelpers::sysexMessage\<close> wraps a byte vector into the former.
\<close>

datatype MidiMessage =
    SysExMessage "uint8 list"
  | controllerEvent int int int
  | OtherMessage "uint8 list"

fun isSysEx :: "MidiMessage \<Rightarrow> bool" where
  "isSysEx (SysExMessage d) = True"
| "isSysEx _ = False"

fun getSysExData :: "MidiMessage \<Rightarrow> uint8 list" where
  "getSysExData (SysExMessage d) = d"
| "getSysExData _ = []"

definition getSysExDataSize :: "MidiMessage \<Rightarrow> nat" where
  "getSysExDataSize message = length (getSysExData message)"

definition sysexMessage :: "uint8 list \<Rightarrow> MidiMessage" where
  "sysexMessage bytes = SysExMessage bytes"

text \<open>
  The read \<open>getSysExData()[i]\<close>. The buffer of a sysex message holds the byte 0xF0,
  the data and the terminator 0xF7, and \<open>getSysExData()\<close> points behind 0xF0: the
  index \<open>getSysExDataSize()\<close> is still inside the buffer and holds the terminator.
  A read at a larger index leaves the buffer, which is undefined behaviour in C++;
  the model makes it an error value that lists the indices read outside the message.
\<close>

datatype error = OutOfBounds "nat list"

definition dataAt :: "MidiMessage \<Rightarrow> nat \<Rightarrow> error + uint8" where
  "dataAt message i =
     (if i < getSysExDataSize message then Inr (getSysExData message ! i)
      else if i = getSysExDataSize message then Inr 0xF7
      else Inl (OutOfBounds [i]))"

text \<open>
  Two reads that the code makes one after the other, with no test between them: both
  are made, so the error keeps the indices of both, in the order of the reads.
\<close>

fun both :: "error + 'a \<Rightarrow> error + 'b \<Rightarrow> error + ('a \<times> 'b)" where
  "both (Inr a) (Inr b) = Inr (a, b)"
| "both (Inl e) (Inr b) = Inl e"
| "both (Inr a) (Inl e) = Inl e"
| "both (Inl (OutOfBounds is)) (Inl (OutOfBounds js)) = Inl (OutOfBounds (is @ js))"

section \<open>Sysex codec\<close>

text \<open>
  Modelled from the spec: \<open>escapeSysex\<close> and \<open>unescapeSysex\<close> are members of the
  base class \<open>DSISynth\<close>, which OB6.cpp calls but does not define. Section 4.1: escape
  splits every input byte into its high and its low nibble and emits each nibble as one
  transport byte; \<open>escapeSysex data dataSize\<close> escapes the first \<open>dataSize\<close> bytes.
\<close>

fun escape :: "uint8 list \<Rightarrow> uint8 list" where
  "escape [] = []"
| "escape (b # bs) = drop_bit 4 b # (b AND 0x0F) # escape bs"

definition escapeSysex :: "uint8 list \<Rightarrow> nat \<Rightarrow> uint8 list" where
  "escapeSysex data dataSize = escape (take dataSize data)"

text \<open>
  Modelled from the spec: unescape consumes the transport bytes in pairs, recombines
  the two nibbles they carry into one byte, and stops after \<open>expectedLength\<close> bytes
  or when the input is exhausted (a single trailing byte is no pair).
\<close>

fun unescapeSysex :: "uint8 list \<Rightarrow> nat \<Rightarrow> uint8 list" where
  "unescapeSysex (h # l # rest) (Suc n) =
     (push_bit 4 h OR (l AND 0x0F)) # unescapeSysex rest n"
| "unescapeSysex _ _ = []"

section \<open>Types of the base library that OB6.cpp uses\<close>

text \<open>
  The classes below are declared outside OB6.cpp. Each is modelled by the ways OB6.cpp
  makes a value of it: one constructor per factory function or constructor call. A
  value of \<open>MidiChannel\<close> is thus the factory call that made it, kept symbolic:
  \<open>fromOneBase c\<close> says that \<open>MidiChannel::fromOneBase(c)\<close> was returned, and
  nothing about what the class makes of \<open>c\<close>, for instance of a number above 16.
\<close>

datatype MidiChannel = invalidChannel | omniChannel | fromOneBase int

text \<open>
  \<open>MidiProgramNumber place;\<close> is the default-constructed number, the slot-less case
  of the spec; \<open>fromZeroBase\<close> is the factory.
\<close>

datatype MidiProgramNumber = defaultProgramNumber | fromZeroBase int

text \<open>
  Modelled from the spec: \<open>toZeroBased\<close> is a member of \<open>MidiProgramNumber\<close>. A slot
  is a zero-based integer (bank times patches per bank plus program), which
  \<open>toZeroBased\<close> reads back; what it gives for the default-constructed number is not
  described, and taken as 0.
\<close>

fun toZeroBased :: "MidiProgramNumber \<Rightarrow> int" where
  "toZeroBased (fromZeroBase programNo) = programNo"
| "toZeroBased defaultProgramNumber = 0"

text \<open>
  The data type identifiers of the driver (\<open>dataTypeID.asInt()\<close>); the last
  constructor stands for every integer that is none of the three, which the
  \<open>switch\<close> statements send to their \<open>default\<close> branch.
\<close>

datatype DataType = PATCH | GLOBAL_SETTINGS | ALTERNATE_TUNING | OtherDataType int

datatype DataFile =
    OB6Patch DataType "uint8 list" MidiProgramNumber
  | GlobalSettingsFile DataType "uint8 list"
  | MTSFile DataType "uint8 list"

fun DataFile_data :: "DataFile \<Rightarrow> uint8 list" where
  "DataFile_data (OB6Patch t d place) = d"
| "DataFile_data (GlobalSettingsFile t d) = d"
| "DataFile_data (MTSFile t d) = d"

text \<open>
  The tuning sub-codec \<open>MidiTuning\<close> is an external collaborator; its two functions
  that OB6.cpp calls are parameters of the model.
\<close>

record MidiTuning =
  isTuningDump :: "MidiMessage \<Rightarrow> bool"
  fromMidiMessage :: "MidiMessage \<Rightarrow> bool"

text \<open>
  What goes to the MIDI output, in the order of the calls. \<open>createNRPN\<close> is declared
  in \<open>DSISynth\<close>; the block of messages it builds is kept symbolic, as the call with
  its address and its value.
\<close>

datatype MidiBlock = createNRPN int int

datatype MidiOutputCall =
    sendBlockOfMessagesFullSpeed MidiBlock
  | sendMessageNow MidiMessage

section \<open>Global settings registry\<close>

text \<open>The enum \<open>OB6_GLOBAL_PARAMS\<close>: indexes into the global parameter dump.\<close>

definition TRANSPOSE :: nat where "TRANSPOSE = 0"
definition MASTER_TUNE :: nat where "MASTER_TUNE = 1"
definition MIDI_CHANNEL :: nat where "MIDI_CHANNEL = 2"
definition MIDI_CLOCK :: nat where "MIDI_CLOCK = 3"
definition CLOCK_PORT :: nat where "CLOCK_PORT = 4"
definition PARAM_TRANSMIT :: nat where "PARAM_TRANSMIT = 5"
definition PARAM_RECEIVE :: nat where "PARAM_RECEIVE = 6"
definition MIDI_CONTROL :: nat where "MIDI_CONTROL = 7"
definition MIDI_SYSEX :: nat where "MIDI_SYSEX = 8"
definition MIDI_OUT :: nat where "MIDI_OUT = 9"
definition LOCAL_CONTROL :: nat where "LOCAL_CONTROL = 10"
definition SEQ_JACK :: nat where "SEQ_JACK = 11"
definition POT_MODE :: nat where "POT_MODE = 12"
definition SUSTAIN_POLARITY :: nat where "SUSTAIN_POLARITY = 13"
definition ALT_TUNING :: nat where "ALT_TUNING = 14"
definition VELOCITY_RESPONSE :: nat where "VELOCITY_RESPONSE = 15"
definition AFTERTOUCH_RESPONSE :: nat where "AFTERTOUCH_RESPONSE = 16"
definition STEREO_MONO :: nat where "STEREO_MONO = 17"
definition ARP_BEAT_SYNC :: nat where "ARP_BEAT_SYNC = 18"

text \<open>
  \<open>TypedNamedValue\<close> by its three constructors used in the table: name, section,
  default, then minimum and maximum, or the lookup table, or nothing more for a
  boolean. The table of alternate tunings \<open>kDSIAlternateTunings()\<close> is defined
  elsewhere and kept as a name.
\<close>

datatype ValueLookup = Lookup "(int \<times> string) list" | kDSIAlternateTunings

datatype TypedNamedValue =
    IntValue string string int int int
  | LookupValue string string int ValueLookup
  | BoolValue string string bool

record DSIGlobalSettingDefinition =
  sysexIndex :: nat
  nrpn :: int
  typedNamedValue :: TypedNamedValue
  displayOffset :: int

text \<open>One entry of the table: the brace initialiser of the struct, field by field.\<close>

definition setting :: "nat \<Rightarrow> int \<Rightarrow> TypedNamedValue \<Rightarrow> int \<Rightarrow> DSIGlobalSettingDefinition" where
  "setting i n v off = \<lparr>sysexIndex = i, nrpn = n, typedNamedValue = v, displayOffset = off\<rparr>"

definition gOB6GlobalSettings_definitions :: "DSIGlobalSettingDefinition list" where
  "gOB6GlobalSettings_definitions = [
    setting TRANSPOSE 1025 (IntValue ''Transpose'' ''Tuning'' 12 (-12) 12) (-12),
    setting MASTER_TUNE 1024 (IntValue ''Master Tune'' ''Tuning'' 25 (-50) 50) (-50),
    setting MIDI_CHANNEL 1026 (LookupValue ''MIDI Channel'' ''MIDI'' 1 (Lookup
      [(0, ''Omni''), (1, ''1''), (2, ''2''), (3, ''3''), (4, ''4''), (5, ''5''),
       (6, ''6''), (7, ''7''), (8, ''8''), (9, ''9''), (10, ''10''), (11, ''11''),
       (12, ''12''), (13, ''13''), (14, ''14''), (15, ''15''), (16, ''16'')])) 0,
    setting MIDI_CLOCK 1027 (LookupValue ''MIDI Clock Mode'' ''MIDI'' 1 (Lookup
      [(0, ''Off''), (1, ''Master''), (2, ''Slave''), (3, ''Slave Thru''),
       (4, ''Slave No S/S'')])) 0,
    setting CLOCK_PORT 1028 (LookupValue ''Clock Port'' ''MIDI'' 0 (Lookup
      [(0, ''MIDI''), (1, ''USB'')])) 0,
    setting PARAM_TRANSMIT 1029 (LookupValue ''MIDI Param Xmit'' ''MIDI'' 2 (Lookup
      [(0, ''Off''), (1, ''CC''), (2, ''NRPN''), (3, ''CC with sequencer''),
       (4, ''NRPN with sequencer'')])) 0,
    setting PARAM_RECEIVE 1030 (LookupValue ''MIDI Param Rcv'' ''MIDI'' 2 (Lookup
      [(0, ''Off''), (1, ''CC''), (2, ''NRPN'')])) 0,
    setting MIDI_CONTROL 1035 (BoolValue ''MIDI Control'' ''MIDI'' True) 0,
    setting MIDI_SYSEX 1032 (LookupValue ''MIDI SysEx'' ''MIDI'' 0 (Lookup
      [(0, ''MIDI''), (1, ''USB'')])) 0,
    setting MIDI_OUT 1033 (LookupValue ''MIDI Out'' ''MIDI'' 0 (Lookup
      [(0, ''MIDI''), (1, ''USB''), (2, ''MIDI+USB''), (3, ''Ply'')])) 0,
    setting ARP_BEAT_SYNC 1036 (LookupValue ''Arp Beat Sync'' ''MIDI'' 0 (Lookup
      [(0, ''Off''), (1, ''Quantize'')])) 0,
    setting LOCAL_CONTROL 1031 (BoolValue ''Local Control Enabled'' ''MIDI'' True) 0,
    setting VELOCITY_RESPONSE 1041 (IntValue ''Velocity Response'' ''Keyboard'' 0 0 7) 0,
    setting AFTERTOUCH_RESPONSE 1042
      (IntValue ''Aftertouch Response'' ''Keyboard'' 0 0 3) 0,
    setting STEREO_MONO 1043 (LookupValue ''Stereo or Mono'' ''Audio Setup'' 0 (Lookup
      [(0, ''Stereo''), (1, ''Mono'')])) 0,
    setting POT_MODE 1037 (LookupValue ''Pot Mode'' ''Front controls'' 2 (Lookup
      [(0, ''Relative''), (1, ''Pass Thru''), (2, ''Jump'')])) 0,
    setting SEQ_JACK 1039 (LookupValue ''Seq jack'' ''Pedals'' 0 (Lookup
      [(0, ''Normal''), (1, ''Tri''), (2, ''Gate''), (3, ''Gate/Trigger'')])) 0,
    setting ALT_TUNING 1044
      (LookupValue ''Alternative Tuning'' ''Scales'' 0 kDSIAlternateTunings) 0,
    setting SUSTAIN_POLARITY 1040 (LookupValue ''Sustain polarity'' ''Controls'' 0 (Lookup
      [(0, ''Normal''), (1, ''Reversed''), (2, ''n-r''), (3, ''r-n'')])) 0
  ]"

text \<open>
  \<open>sOB6GlobalSettings\<close> is a pointer that is null until the first call of
  \<open>kOB6GlobalSettings\<close>, which fills it; the call returns the list the pointer holds,
  and the pointer as it is after the call.
\<close>

type_synonym sOB6GlobalSettings = "DSIGlobalSettingDefinition list option"

fun kOB6GlobalSettings ::
  "sOB6GlobalSettings \<Rightarrow> DSIGlobalSettingDefinition list \<times> sOB6GlobalSettings" where
  "kOB6GlobalSettings None =
     (gOB6GlobalSettings_definitions, Some gOB6GlobalSettings_definitions)"
| "kOB6GlobalSettings (Some held) = (held, Some held)"

text \<open>The lists returned by \<open>n\<close> calls in a row, starting from the pointer \<open>s\<close>.\<close>

fun successive_calls ::
  "nat \<Rightarrow> sOB6GlobalSettings \<Rightarrow> DSIGlobalSettingDefinition list list" where
  "successive_calls 0 s = []"
| "successive_calls (Suc n) s =
     (case kOB6GlobalSettings s of (defs, s') \<Rightarrow> defs # successive_calls n s')"

text \<open>The NRPN address the table gives to a parameter.\<close>

definition nrpn_of :: "nat \<Rightarrow> int option" where
  "nrpn_of param =
     map_of (map (\<lambda>d. (sysexIndex d, nrpn d)) gOB6GlobalSettings_definitions) param"

section \<open>The driver\<close>

text \<open>
  The members of the driver object that the modelled functions read or write; a member
  \<open>x_\<close> of the source is the field \<open>m_x\<close>.
  @@m_midiModelID@@ is set by the constructor \<open>DSISynth(0b00101110)\<close>.
  @@m_globalSettings@@ is the cached named-value state; its type is left open, since
  only \<open>setGlobalSettingsFromDataFile\<close> of the base class writes to it at run time.
  \<open>channel_oneBased\<close> is what \<open>channel().toOneBasedInt()\<close> yields.
\<close>

record 'g OB6 =
  m_midiModelID :: uint8
  m_localControl :: bool
  m_midiControl :: bool
  m_globalSettings :: 'g
  channel_oneBased :: int

definition OB6_midiModelID :: uint8 where
  "OB6_midiModelID = 0x2E"

definition numberOfBanks :: int where
  "numberOfBanks = 10"

definition numberOfPatches :: int where
  "numberOfPatches = 100"

subsection \<open>Message classifier\<close>

text \<open>
  Modelled from the spec: \<open>isOwnSysex\<close> is a member of \<open>DSISynth\<close>. Sections 4.2
  and 6: a message is this device's when it is a sysex message whose vendor byte is
  0x01 and whose model byte is the model id given at construction.
\<close>

definition isOwnSysex :: "uint8 \<Rightarrow> MidiMessage \<Rightarrow> bool" where
  "isOwnSysex midiModelID message \<longleftrightarrow>
     isSysEx message \<and> getSysExDataSize message > 1
     \<and> getSysExData message ! 0 = 0x01
     \<and> getSysExData message ! 1 = midiModelID"

definition isGlobalSettingsDump :: "uint8 \<Rightarrow> MidiMessage \<Rightarrow> bool" where
  "isGlobalSettingsDump midiModelID message \<longleftrightarrow>
     isOwnSysex midiModelID message \<and> getSysExDataSize message > 2
     \<and> getSysExData message ! 2 = 0x0f"

text \<open>
  Modelled from the spec: \<open>isSingleProgramDump\<close> and \<open>isEditBufferDump\<close> are members
  of \<open>DSISynth\<close>. The table of section 4.2 gives command byte 0x02 to the Program Data
  Dump and 0x03 to the Edit Buffer Dump; the shape follows \<open>isGlobalSettingsDump\<close>.
\<close>

definition isSingleProgramDump :: "uint8 \<Rightarrow> MidiMessage \<Rightarrow> bool" where
  "isSingleProgramDump midiModelID message \<longleftrightarrow>
     isOwnSysex midiModelID message \<and> getSysExDataSize message > 2
     \<and> getSysExData message ! 2 = 0x02"

definition isEditBufferDump :: "uint8 \<Rightarrow> MidiMessage \<Rightarrow> bool" where
  "isEditBufferDump midiModelID message \<longleftrightarrow>
     isOwnSysex midiModelID message \<and> getSysExDataSize message > 2
     \<and> getSysExData message ! 2 = 0x03"

subsection \<open>Record builders\<close>

text \<open>
  \<open>patchFromSysex\<close>. The null pointer is \<open>None\<close>. \<open>startOfData\<close> with the length
  \<open>getSysExDataSize() - startIndex\<close> is the message data from \<open>startIndex\<close> on. For
  a program dump the bank and program bytes are read at indices 3 and 4 without a check
  of the size, which is only known to exceed 2: with 4 data bytes the program byte is
  the terminator, with 3 the read at index 4 is outside the message.
\<close>

definition patchFromSysex :: "uint8 \<Rightarrow> MidiMessage \<Rightarrow> error + DataFile option" where
  "patchFromSysex midiModelID message =
     (if isOwnSysex midiModelID message then
        if getSysExDataSize message > 2 then
          let messageCode = getSysExData message ! 2 in
          if messageCode = 0x02 \<or> messageCode = 0x03 then
            let startIndex = (if messageCode = 0x02 then 5 else 3);
                globalDumpData = unescapeSysex (drop startIndex (getSysExData message)) 1024
            in
              if messageCode = 0x02 then
                (case both (dataAt message 3) (dataAt message 4) of
                   Inl e \<Rightarrow> Inl e
                 | Inr (bank, program) \<Rightarrow>
                     Inr (Some (OB6Patch PATCH globalDumpData
                       (fromZeroBase (uint bank * 100 + uint program)))))
              else Inr (Some (OB6Patch PATCH globalDumpData defaultProgramNumber))
          else Inr None
        else Inr None
      else Inr None)"

definition patchFromProgramDumpSysex :: "uint8 \<Rightarrow> MidiMessage \<Rightarrow> error + DataFile option" where
  "patchFromProgramDumpSysex midiModelID message = patchFromSysex midiModelID message"

definition patchFromPatchData :: "uint8 list \<Rightarrow> MidiProgramNumber \<Rightarrow> DataFile" where
  "patchFromPatchData patchData place = OB6Patch PATCH patchData place"

definition patchToSysex :: "uint8 \<Rightarrow> DataFile \<Rightarrow> MidiMessage list" where
  "patchToSysex midiModelID patch =
     [sysexMessage ([0x01, midiModelID, 0x03]
        @ escapeSysex (DataFile_data patch) (length (DataFile_data patch)))]"

text \<open>
  \<open>patchToProgramDumpSysex\<close>. The division and the remainder are those of C++
  \<open>int\<close> (truncating); the cast to \<open>uint8\<close> keeps the low eight bits.
\<close>

definition patchToProgramDumpSysex ::
  "uint8 \<Rightarrow> DataFile \<Rightarrow> MidiProgramNumber \<Rightarrow> MidiMessage list" where
  "patchToProgramDumpSysex midiModelID patch programNumber =
     (let programPlace = toZeroBased programNumber;
          programDataDump =
            [0x01, midiModelID, 0x02,
             word_of_int (programPlace sdiv numberOfPatches),
             word_of_int (programPlace smod numberOfPatches)]
      in [sysexMessage (programDataDump
            @ escapeSysex (DataFile_data patch) (length (DataFile_data patch)))])"

subsection \<open>Name blank-out\<close>

text \<open>The table \<open>kOB6BlankOutZones\<close>: one range, given by its start and its end.\<close>

definition kOB6BlankOutZones :: "(int \<times> int) list" where
  "kOB6BlankOutZones = [(107, 127)]"

text \<open>
  Modelled from the spec: \<open>Patch::blankOut\<close> and the range type are defined outside
  OB6.cpp. Sections 3 and 6: the bytes of the payload at the offsets of a zone, both
  ends included, are set to zero, and no other byte changes.
\<close>

definition inZone :: "(int \<times> int) list \<Rightarrow> nat \<Rightarrow> bool" where
  "inZone zones i \<longleftrightarrow> (\<exists>z \<in> set zones. fst z \<le> int i \<and> int i \<le> snd z)"

definition blankOut :: "(int \<times> int) list \<Rightarrow> uint8 list \<Rightarrow> uint8 list" where
  "blankOut zones inputData =
     map (\<lambda>i. if inZone zones i then 0 else inputData ! i) [0..<length inputData]"

definition filterVoiceRelevantData :: "DataFile \<Rightarrow> uint8 list" where
  "filterVoiceRelevantData unfilteredData =
     blankOut kOB6BlankOutZones (DataFile_data unfilteredData)"

subsection \<open>Data files\<close>

text \<open>
  \<open>isDataFile\<close>. \<open>jassert(false)\<close> in the \<open>default\<close> branch reports the
  assertion in a debug build and does not leave the function, which goes on to its
  last line, \<open>return false\<close>.
\<close>

definition isDataFile :: "MidiTuning \<Rightarrow> uint8 \<Rightarrow> MidiMessage \<Rightarrow> DataType \<Rightarrow> bool" where
  "isDataFile tuning midiModelID message dataTypeID =
     (if isOwnSysex midiModelID message then
        (case dataTypeID of
           PATCH \<Rightarrow>
             isSingleProgramDump midiModelID message \<or> isEditBufferDump midiModelID message
         | GLOBAL_SETTINGS \<Rightarrow> isGlobalSettingsDump midiModelID message
         | ALTERNATE_TUNING \<Rightarrow> isTuningDump tuning message
         | OtherDataType n \<Rightarrow> False)
      else False)"

definition isPartOfDataFileStream ::
  "MidiTuning \<Rightarrow> uint8 \<Rightarrow> MidiMessage \<Rightarrow> DataType \<Rightarrow> bool" where
  "isPartOfDataFileStream tuning midiModelID message dataTypeID =
     isDataFile tuning midiModelID message dataTypeID"

text \<open>
  \<open>loadData\<close>: the loop over the messages, with the vector \<open>result\<close> it fills. Where
  the source has \<open>jassert(false)\<close> nothing is added for the message and the loop goes
  on.
\<close>

fun loadData_loop ::
  "MidiTuning \<Rightarrow> uint8 \<Rightarrow> MidiMessage list \<Rightarrow> DataType \<Rightarrow> DataFile list
    \<Rightarrow> DataFile list" where
  "loadData_loop tuning midiModelID [] dataTypeID result = result"
| "loadData_loop tuning midiModelID (m # messages) dataTypeID result =
     (if isPartOfDataFileStream tuning midiModelID m dataTypeID then
        (case dataTypeID of
           GLOBAL_SETTINGS \<Rightarrow>
             loadData_loop tuning midiModelID messages dataTypeID
               (result @ [GlobalSettingsFile GLOBAL_SETTINGS (getSysExData m)])
         | ALTERNATE_TUNING \<Rightarrow>
             if fromMidiMessage tuning m then
               loadData_loop tuning midiModelID messages dataTypeID
                 (result @ [MTSFile ALTERNATE_TUNING (getSysExData m)])
             else loadData_loop tuning midiModelID messages dataTypeID result
         | PATCH \<Rightarrow> loadData_loop tuning midiModelID messages dataTypeID result
         | OtherDataType n \<Rightarrow> loadData_loop tuning midiModelID messages dataTypeID result)
      else loadData_loop tuning midiModelID messages dataTypeID result)"

definition loadData ::
  "MidiTuning \<Rightarrow> uint8 \<Rightarrow> MidiMessage list \<Rightarrow> DataType \<Rightarrow> DataFile list" where
  "loadData tuning midiModelID messages dataTypeID =
     loadData_loop tuning midiModelID messages dataTypeID []"

subsection \<open>Device handshake\<close>

definition requestGlobalSettingsDump :: "uint8 \<Rightarrow> MidiMessage" where
  "requestGlobalSettingsDump midiModelID = sysexMessage [0x01, midiModelID, 0x0e]"

definition deviceDetect :: "uint8 \<Rightarrow> int \<Rightarrow> MidiMessage list" where
  "deviceDetect midiModelID channel = [requestGlobalSettingsDump midiModelID]"

text \<open>
  \<open>channelIfValidDeviceResponse\<close>. The three bytes are read in the order of the
  source, each without a check of the size. \<open>setGlobalSettingsFromDataFile\<close> is a
  member of \<open>DSISynth\<close> and a parameter here: it takes the cached settings and the
  data file and gives the settings after decoding.
\<close>

definition channelIfValidDeviceResponse ::
  "('g \<Rightarrow> DataFile \<Rightarrow> 'g) \<Rightarrow> MidiTuning \<Rightarrow> 'g OB6 \<Rightarrow> MidiMessage
    \<Rightarrow> error + (MidiChannel \<times> 'g OB6)" where
  "channelIfValidDeviceResponse setGlobalSettingsFromDataFile tuning this message =
     (if isGlobalSettingsDump (m_midiModelID this) message then
        (case both (dataAt message (3 + LOCAL_CONTROL))
                (both (dataAt message (3 + MIDI_CONTROL))
                      (dataAt message (MIDI_CHANNEL + 3))) of
           Inl e \<Rightarrow> Inl e
         | Inr (lc, mc, ch) \<Rightarrow>
             let this1 = this\<lparr>m_localControl := (lc = 1), m_midiControl := (mc = 1)\<rparr>;
                 midiChannel = uint ch
             in
               if midiChannel = 0 then Inr (omniChannel, this1)
               else
                 let dataFile = loadData tuning (m_midiModelID this) [message] GLOBAL_SETTINGS;
                     this2 =
                       (if length dataFile > 0 then
                          this1\<lparr>m_globalSettings :=
                            setGlobalSettingsFromDataFile (m_globalSettings this1) (dataFile ! 0)\<rparr>
                        else this1)
                 in Inr (fromOneBase midiChannel, this2))
      else Inr (invalidChannel, this))"

subsection \<open>Remote writes\<close>

definition setMidiControl :: "'g OB6 \<Rightarrow> bool \<Rightarrow> MidiOutputCall list \<times> 'g OB6" where
  "setMidiControl this isOn =
     ([sendBlockOfMessagesFullSpeed (createNRPN 1031 (if isOn then 1 else 0))],
      this\<lparr>m_midiControl := isOn\<rparr>)"

definition setLocalControl :: "'g OB6 \<Rightarrow> bool \<Rightarrow> MidiOutputCall list \<times> 'g OB6" where
  "setLocalControl this localControlOn =
     ([sendBlockOfMessagesFullSpeed (createNRPN 1035 (if localControlOn then 1 else 0)),
       sendMessageNow
         (controllerEvent (channel_oneBased this) 0x7a (if localControlOn then 1 else 0))],
      this\<lparr>m_localControl := localControlOn\<rparr>)"

subsection \<open>Stand-ins for the collaborators, for closed instances\<close>

text \<open>
  A tuning sub-codec that recognises no message, and a settings decoder that keeps the
  data file it was given last.
\<close>

definition noTuning :: MidiTuning where
  "noTuning = \<lparr>isTuningDump = (\<lambda>m. False), fromMidiMessage = (\<lambda>m. False)\<rparr>"

definition keepDataFile :: "DataFile option \<Rightarrow> DataFile \<Rightarrow> DataFile option" where
  "keepDataFile settings dataFile = Some dataFile"

definition newOB6 :: "DataFile option OB6" where
  "newOB6 = \<lparr>m_midiModelID = OB6_midiModelID, m_localControl = False, m_midiControl = False,
     m_globalSettings = None, channel_oneBased = 1\<rparr>"

section \<open>Lemmas\<close>

lemmas OB6_GLOBAL_PARAMS_defs =
  TRANSPOSE_def MASTER_TUNE_def MIDI_CHANNEL_def MIDI_CLOCK_def CLOCK_PORT_def
  PARAM_TRANSMIT_def PARAM_RECEIVE_def MIDI_CONTROL_def MIDI_SYSEX_def MIDI_OUT_def
  LOCAL_CONTROL_def SEQ_JACK_def POT_MODE_def SUSTAIN_POLARITY_def ALT_TUNING_def
  VELOCITY_RESPONSE_def AFTERTOUCH_RESPONSE_def STEREO_MONO_def ARP_BEAT_SYNC_def

subsection \<open>Codec\<close>

lemma nibbles_recombine:
  "push_bit 4 (drop_bit 4 b) OR (b AND 0x0F) = (b :: uint8)"
proof -
  have m: "(0x0F :: uint8) = mask 4"
    by (simp add: mask_eq_exp_minus_1)
  have "push_bit 4 (drop_bit 4 b) OR (b AND mask 4) = b"
    by (rule bit_word_eqI) (auto simp: bit_simps)
  then show ?thesis
    by (simp add: m)
qed

lemma unescape_escape:
  "unescapeSysex (escape x) (length x) = x"
  by (induction x) (simp_all add: nibbles_recombine)

lemma length_escape: "length (escape x) = 2 * length x"
  by (induction x) simp_all

subsection \<open>Classifier\<close>

lemma own_cons [simp]:
  "isOwnSysex m (SysExMessage (v # w # rest)) \<longleftrightarrow> v = 0x01 \<and> w = m"
  by (simp add: isOwnSysex_def getSysExDataSize_def)

lemma own_short [simp]:
  "\<not> isOwnSysex m (SysExMessage [])" "\<not> isOwnSysex m (SysExMessage [v])"
  by (simp_all add: isOwnSysex_def getSysExDataSize_def)


lemma dump_header:
  "isGlobalSettingsDump m (SysExMessage (0x01 # m # 0x0f # rest))"
  by (simp add: isGlobalSettingsDump_def getSysExDataSize_def)

subsection \<open>Handshake\<close>

lemma loadData_single_dump:
  assumes "isGlobalSettingsDump m message"
  shows "loadData tuning m [message] GLOBAL_SETTINGS
           = [GlobalSettingsFile GLOBAL_SETTINGS (getSysExData message)]"
proof -
  from assms have own: "isOwnSysex m message"
    by (simp add: isGlobalSettingsDump_def)
  with assms have "isPartOfDataFileStream tuning m message GLOBAL_SETTINGS"
    by (simp add: isPartOfDataFileStream_def isDataFile_def)
  then show ?thesis
    by (simp add: loadData_def)
qed

text \<open>The three reads of the handshake, by the size of the data.\<close>

lemma handshake_reads_inside:
  assumes "13 \<le> getSysExDataSize message"
  shows "both (dataAt message (3 + LOCAL_CONTROL))
           (both (dataAt message (3 + MIDI_CONTROL)) (dataAt message (MIDI_CHANNEL + 3)))
         = Inr (if 13 < getSysExDataSize message then getSysExData message ! 13 else 0xF7,
                getSysExData message ! 10, getSysExData message ! 5)"
  using assms
  by (simp add: dataAt_def LOCAL_CONTROL_def MIDI_CONTROL_def MIDI_CHANNEL_def)

lemma handshake_reads_outside:
  assumes "getSysExDataSize message < 13"
  shows "both (dataAt message (3 + LOCAL_CONTROL))
           (both (dataAt message (3 + MIDI_CONTROL)) (dataAt message (MIDI_CHANNEL + 3)))
         = Inl (OutOfBounds (filter (\<lambda>i. getSysExDataSize message < i) [13, 10, 5]))"
  using assms
  by (simp add: dataAt_def LOCAL_CONTROL_def MIDI_CONTROL_def MIDI_CHANNEL_def)

text \<open>What the handshake does with a dump whose three reads stay inside the message.\<close>

lemma handshake_inside:
  assumes dump: "isGlobalSettingsDump (m_midiModelID this) message"
    and size: "13 \<le> getSysExDataSize message"
  shows "channelIfValidDeviceResponse setGS tuning this message =
    (let d = getSysExData message;
         this1 = this\<lparr>m_localControl := (13 < getSysExDataSize message \<and> d ! 13 = 1),
                      m_midiControl := (d ! 10 = 1)\<rparr>
     in if d ! 5 = 0 then Inr (omniChannel, this1)
        else Inr (fromOneBase (uint (d ! 5)),
               this1\<lparr>m_globalSettings :=
                 setGS (m_globalSettings this) (GlobalSettingsFile GLOBAL_SETTINGS d)\<rparr>))"
  unfolding channelIfValidDeviceResponse_def
  by (simp add: dump handshake_reads_inside [OF size] loadData_single_dump [OF dump]
      Let_def uint_0_iff)

lemma handshake_result:
  assumes dump: "isGlobalSettingsDump (m_midiModelID this) message"
    and size: "14 \<le> getSysExDataSize message"
  shows "channelIfValidDeviceResponse setGS tuning this message =
    (let d = getSysExData message;
         this1 = this\<lparr>m_localControl := (d ! 13 = 1), m_midiControl := (d ! 10 = 1)\<rparr>
     in if d ! 5 = 0 then Inr (omniChannel, this1)
        else Inr (fromOneBase (uint (d ! 5)),
               this1\<lparr>m_globalSettings :=
                 setGS (m_globalSettings this) (GlobalSettingsFile GLOBAL_SETTINGS d)\<rparr>))"
proof -
  from size have "13 \<le> getSysExDataSize message" and "13 < getSysExDataSize message"
    by simp_all
  with handshake_inside [OF dump, of setGS tuning] show ?thesis
    by simp
qed

lemma handshake_outside:
  assumes dump: "isGlobalSettingsDump (m_midiModelID this) message"
    and size: "getSysExDataSize message < 13"
  shows "channelIfValidDeviceResponse setGS tuning this message
           = Inl (OutOfBounds (filter (\<lambda>i. getSysExDataSize message < i) [13, 10, 5]))"
  unfolding channelIfValidDeviceResponse_def
  by (simp only: dump if_True handshake_reads_outside [OF size] sum.case)

lemma newOB6_model [simp]: "m_midiModelID newOB6 = 0x2E"
  by (simp add: newOB6_def OB6_midiModelID_def)

subsection \<open>Record builders\<close>



subsection \<open>Record builders and registry\<close>

lemma program_bytes_217:
  "(word_of_int (217 sdiv numberOfPatches) :: uint8) = 2"
  "(word_of_int (217 smod numberOfPatches) :: uint8) = 17"
  by (simp_all add: numberOfPatches_def signed_divide_int_def signed_modulo_int_def)

lemma inZone_name: "inZone kOB6BlankOutZones i \<longleftrightarrow> 107 \<le> i \<and> i \<le> 127"
  by (auto simp: inZone_def kOB6BlankOutZones_def)

lemma successive_calls_held:
  "successive_calls n (Some held) = replicate n held"
  by (induction n) simp_all

lemma successive_calls_null:
  "successive_calls n None = replicate n gOB6GlobalSettings_definitions"
  by (cases n) (simp_all add: successive_calls_held)

section \<open>The claims\<close>

text \<open>
  C1. The claim: \<open>setLocalControl\<close> sends an NRPN write to address 1031, followed by
  a controller change with index 0x7a on the device's channel, and \<open>setMidiControl\<close>
  sends an NRPN write to address 1035, each the address the table gives to its
  parameter. The code has the two addresses the other way round: \<open>setLocalControl\<close>
  writes to 1035, which the table gives to MIDI control, and \<open>setMidiControl\<close> writes
  to 1031, which the table gives to local control. The theorem evaluates both
  functions, switching on, and looks both addresses up in the table.
\<close>

theorem C1_nrpn_addresses_swapped:
  "fst (setLocalControl this True) =
      [sendBlockOfMessagesFullSpeed (createNRPN 1035 1),
       sendMessageNow (controllerEvent (channel_oneBased this) 0x7a 1)]
   \<and> nrpn_of LOCAL_CONTROL = Some 1031
   \<and> fst (setMidiControl this True) = [sendBlockOfMessagesFullSpeed (createNRPN 1031 1)]
   \<and> nrpn_of MIDI_CONTROL = Some 1035"
  by (simp add: setLocalControl_def setMidiControl_def nrpn_of_def
      gOB6GlobalSettings_definitions_def setting_def OB6_GLOBAL_PARAMS_defs)

text \<open>
  C2. For every byte sequence \<open>x\<close> of any length, unescaping the escaped sequence to
  \<open>length x\<close> bytes gives \<open>x\<close> back: \<open>unescape(escape(x), len(x)) == x\<close>.
\<close>

theorem C2_unescape_escape_roundtrip:
  "unescapeSysex (escapeSysex x (length x)) (length x) = x"
  by (simp add: escapeSysex_def unescape_escape)

text \<open>
  C4. The claim: for every matching Global Settings Dump, the omni one included, the
  handshake caches the two flags and decodes the snapshot into the cached settings.
  The code returns for the channel byte 0 before it reaches \<open>loadData\<close> and
  \<open>setGlobalSettingsFromDataFile\<close>. The theorem evaluates the handshake at two dumps
  that differ in the channel byte only: with 0 the two flags are set and the cached
  settings are untouched, whatever the decoder is; with 1 the decoder is applied.
\<close>

theorem C4_omni_dump_not_decoded:
  "channelIfValidDeviceResponse setGS tuning this
     (SysExMessage [0x01, m_midiModelID this, 0x0f, 0, 0, 0, 0, 0, 0, 0, 1, 0, 0, 1])
     = Inr (omniChannel, this\<lparr>m_localControl := True, m_midiControl := True\<rparr>)
   \<and> channelIfValidDeviceResponse setGS tuning this
     (SysExMessage [0x01, m_midiModelID this, 0x0f, 0, 0, 1, 0, 0, 0, 0, 1, 0, 0, 1])
     = Inr (fromOneBase 1,
         this\<lparr>m_localControl := True, m_midiControl := True,
           m_globalSettings := setGS (m_globalSettings this)
             (GlobalSettingsFile GLOBAL_SETTINGS
               [0x01, m_midiModelID this, 0x0f, 0, 0, 1, 0, 0, 0, 0, 1, 0, 0, 1])\<rparr>)"
  by (simp add: handshake_result [OF dump_header] getSysExDataSize_def)




text \<open>
  C6. For every patch payload of 1024 bytes, the Program Data Dump that
  \<open>patchToProgramDumpSysex\<close> builds for slot 217 (bank 2, program 17) is turned by
  \<open>patchFromSysex\<close> into a record with slot 217 and with the payload it started from:
  all 1024 bytes, so those outside the name zone too.
\<close>

theorem C6_program_dump_roundtrip:
  assumes "length (DataFile_data patch) = 1024"
  shows "map (patchFromSysex m) (patchToProgramDumpSysex m patch (fromZeroBase 217))
           = [Inr (Some (OB6Patch PATCH (DataFile_data patch) (fromZeroBase 217)))]"
proof -
  have payload: "unescapeSysex (escape (DataFile_data patch)) 1024 = DataFile_data patch"
    using unescape_escape [of "DataFile_data patch"] assms by simp
  show ?thesis
    by (simp add: patchToProgramDumpSysex_def patchFromSysex_def sysexMessage_def
        program_bytes_217 getSysExDataSize_def dataAt_def escapeSysex_def payload)
qed

theorem C6_program_dump_roundtrip_witness:
  "length (DataFile_data (OB6Patch PATCH (replicate 1024 0xA5) defaultProgramNumber)) = 1024
   \<and> map (patchFromSysex OB6_midiModelID)
        (patchToProgramDumpSysex OB6_midiModelID
           (OB6Patch PATCH (replicate 1024 0xA5) defaultProgramNumber) (fromZeroBase 217))
      = [Inr (Some (OB6Patch PATCH (replicate 1024 0xA5) (fromZeroBase 217)))]"
  using C6_program_dump_roundtrip
    [of "OB6Patch PATCH (replicate 1024 0xA5) defaultProgramNumber" OB6_midiModelID]
  by simp

text \<open>
  C7. For every patch payload, \<open>filterVoiceRelevantData\<close> gives a payload of the same
  length in which the bytes at the offsets 107 to 127, both included, are zero and
  every other byte is the byte of the input.
\<close>

theorem C7_name_blank_out:
  "length (filterVoiceRelevantData patch) = length (DataFile_data patch)
   \<and> (i < length (DataFile_data patch) \<longrightarrow>
        filterVoiceRelevantData patch ! i
          = (if 107 \<le> i \<and> i \<le> 127 then 0 else DataFile_data patch ! i))"
  by (simp add: filterVoiceRelevantData_def blankOut_def inZone_name)

theorem C7_name_blank_out_witness:
  "(107 < length (DataFile_data (OB6Patch PATCH (replicate 1024 0xFF) defaultProgramNumber))
    \<and> filterVoiceRelevantData
         (OB6Patch PATCH (replicate 1024 0xFF) defaultProgramNumber) ! 107 = 0)
   \<and> (128 < length (DataFile_data (OB6Patch PATCH (replicate 1024 0xFF) defaultProgramNumber))
    \<and> filterVoiceRelevantData
         (OB6Patch PATCH (replicate 1024 0xFF) defaultProgramNumber) ! 128 = 0xFF)"
  using C7_name_blank_out [of "OB6Patch PATCH (replicate 1024 0xFF) defaultProgramNumber" 107]
    C7_name_blank_out [of "OB6Patch PATCH (replicate 1024 0xFF) defaultProgramNumber" 128]
  by simp

text \<open>
  C9. The registry holds exactly 19 definitions, their parameter identifiers are
  pairwise distinct, their NRPN addresses are pairwise distinct, and any number of
  calls of \<open>kOB6GlobalSettings\<close>, the first of which finds the pointer null, all
  return this list.
\<close>

theorem C9_registry:
  "length gOB6GlobalSettings_definitions = 19
   \<and> distinct (map sysexIndex gOB6GlobalSettings_definitions)
   \<and> distinct (map nrpn gOB6GlobalSettings_definitions)
   \<and> successive_calls n None = replicate n gOB6GlobalSettings_definitions"
proof -
  have l: "length gOB6GlobalSettings_definitions = 19"
    by (simp add: gOB6GlobalSettings_definitions_def)
  have i: "map sysexIndex gOB6GlobalSettings_definitions
      = [0, 1, 2, 3, 4, 5, 6, 7, 8, 9, 18, 10, 15, 16, 17, 12, 11, 14, 13]"
    by (simp add: gOB6GlobalSettings_definitions_def setting_def OB6_GLOBAL_PARAMS_defs)
  have a: "map nrpn gOB6GlobalSettings_definitions
      = [1025, 1024, 1026, 1027, 1028, 1029, 1030, 1035, 1032, 1033, 1036, 1031,
         1041, 1042, 1043, 1037, 1039, 1044, 1040]"
    by (simp add: gOB6GlobalSettings_definitions_def setting_def)
  show ?thesis
    by (simp add: l i a successive_calls_null)
qed

text \<open>
  C10, as amended. A message with the device's header, the command byte 0x0f and at
  least 3 data bytes is accepted as a Global Settings Dump. For an accepted dump the
  handshake reads the bytes at the indices 13, 10 and 5 with no check of the size.
  With fewer than 13 data bytes the call ends in the error that lists, of 13, 10 and
  5, the indices outside the message: always 13, also 10 with fewer than 10 bytes, also
  5 with fewer than 5. With exactly 13 data bytes the read at index 13 gives the
  terminator that follows the data, not a settings byte: the call returns, with local
  control cached as off. From 13 data bytes on the call returns a channel, with the
  two flags and the channel taken from the indices 13, 10 and 5; all three are data
  bytes from 14 data bytes on.
\<close>

theorem C10_handshake_reads:
  "isGlobalSettingsDump m (SysExMessage (0x01 # m # 0x0f # rest))
   \<and> (isGlobalSettingsDump (m_midiModelID this) message \<longrightarrow>
        3 \<le> getSysExDataSize message
        \<and> channelIfValidDeviceResponse setGS tuning this message =
            (if getSysExDataSize message < 13 then
               Inl (OutOfBounds (filter (\<lambda>i. getSysExDataSize message < i) [13, 10, 5]))
             else
               let d = getSysExData message;
                   this1 = this\<lparr>m_localControl := (13 < getSysExDataSize message \<and> d ! 13 = 1),
                                m_midiControl := (d ! 10 = 1)\<rparr>
               in if d ! 5 = 0 then Inr (omniChannel, this1)
                  else Inr (fromOneBase (uint (d ! 5)),
                         this1\<lparr>m_globalSettings :=
                           setGS (m_globalSettings this)
                             (GlobalSettingsFile GLOBAL_SETTINGS d)\<rparr>)))"
proof -
  have size: "3 \<le> getSysExDataSize message"
    if "isGlobalSettingsDump (m_midiModelID this) message"
    using that by (simp add: isGlobalSettingsDump_def)
  have result: "channelIfValidDeviceResponse setGS tuning this message =
            (if getSysExDataSize message < 13 then
               Inl (OutOfBounds (filter (\<lambda>i. getSysExDataSize message < i) [13, 10, 5]))
             else
               let d = getSysExData message;
                   this1 = this\<lparr>m_localControl := (13 < getSysExDataSize message \<and> d ! 13 = 1),
                                m_midiControl := (d ! 10 = 1)\<rparr>
               in if d ! 5 = 0 then Inr (omniChannel, this1)
                  else Inr (fromOneBase (uint (d ! 5)),
                         this1\<lparr>m_globalSettings :=
                           setGS (m_globalSettings this)
                             (GlobalSettingsFile GLOBAL_SETTINGS d)\<rparr>))"
    if dump: "isGlobalSettingsDump (m_midiModelID this) message"
  proof (cases "getSysExDataSize message < 13")
    case True
    with handshake_outside [OF dump True, of setGS tuning] show ?thesis
      by (simp only: if_True)
  next
    case False
    then have "13 \<le> getSysExDataSize message" by simp
    from handshake_inside [OF dump this, of setGS tuning] False show ?thesis
      by (simp only: if_False)
  qed
  from size result dump_header [of m rest] show ?thesis
    by blast
qed

theorem C10_handshake_reads_witness:
  "(isGlobalSettingsDump (m_midiModelID newOB6) (SysExMessage [0x01, 0x2E, 0x0f])
    \<and> channelIfValidDeviceResponse keepDataFile noTuning newOB6
         (SysExMessage [0x01, 0x2E, 0x0f]) = Inl (OutOfBounds [13, 10, 5]))
   \<and> (isGlobalSettingsDump (m_midiModelID newOB6)
         (SysExMessage [0x01, 0x2E, 0x0f, 0, 0, 1, 0, 0, 0, 0])
    \<and> channelIfValidDeviceResponse keepDataFile noTuning newOB6
         (SysExMessage [0x01, 0x2E, 0x0f, 0, 0, 1, 0, 0, 0, 0]) = Inl (OutOfBounds [13]))
   \<and> (isGlobalSettingsDump (m_midiModelID newOB6)
         (SysExMessage [0x01, 0x2E, 0x0f, 0, 0, 0, 0, 0, 0, 0, 1, 0, 0, 1])
    \<and> channelIfValidDeviceResponse keepDataFile noTuning newOB6
         (SysExMessage [0x01, 0x2E, 0x0f, 0, 0, 0, 0, 0, 0, 0, 1, 0, 0, 1])
       = Inr (omniChannel, newOB6\<lparr>m_localControl := True, m_midiControl := True\<rparr>))"
  using
    C10_handshake_reads
      [of "0x2E" "[]" newOB6 "SysExMessage [0x01, 0x2E, 0x0f]" keepDataFile noTuning]
    C10_handshake_reads
      [of "0x2E" "[]" newOB6 "SysExMessage [0x01, 0x2E, 0x0f, 0, 0, 1, 0, 0, 0, 0]"
        keepDataFile noTuning]
    C10_handshake_reads
      [of "0x2E" "[]" newOB6
        "SysExMessage [0x01, 0x2E, 0x0f, 0, 0, 0, 0, 0, 0, 0, 1, 0, 0, 1]"
        keepDataFile noTuning]
  by (simp add: isGlobalSettingsDump_def getSysExDataSize_def)

text \<open>
  C10 as stated fails at 13 data bytes. The dump is accepted and its size is between
  3 and 13, but the read at index 13 stays inside the message: it gives the
  terminator, and the call returns \<open>fromOneBase 1\<close> with local control off, MIDI
  control on and the settings decoded. No read is out of range, with fewer than 14
  data bytes.
\<close>

theorem C10_dump_of_13_bytes_counterexample:
  "isGlobalSettingsDump (m_midiModelID newOB6)
     (SysExMessage [0x01, 0x2E, 0x0f, 0, 0, 1, 0, 0, 0, 0, 1, 0, 0])
   \<and> getSysExDataSize (SysExMessage [0x01, 0x2E, 0x0f, 0, 0, 1, 0, 0, 0, 0, 1, 0, 0]) = 13
   \<and> dataAt (SysExMessage [0x01, 0x2E, 0x0f, 0, 0, 1, 0, 0, 0, 0, 1, 0, 0]) 13 = Inr 0xF7
   \<and> channelIfValidDeviceResponse keepDataFile noTuning newOB6
       (SysExMessage [0x01, 0x2E, 0x0f, 0, 0, 1, 0, 0, 0, 0, 1, 0, 0])
     = Inr (fromOneBase 1,
         newOB6\<lparr>m_localControl := False, m_midiControl := True,
           m_globalSettings := Some (GlobalSettingsFile GLOBAL_SETTINGS
             [0x01, 0x2E, 0x0f, 0, 0, 1, 0, 0, 0, 0, 1, 0, 0])\<rparr>)"
proof -
  have dump: "isGlobalSettingsDump (m_midiModelID newOB6)
     (SysExMessage [0x01, 0x2E, 0x0f, 0, 0, 1, 0, 0, 0, 0, 1, 0, 0])"
    by (simp add: isGlobalSettingsDump_def getSysExDataSize_def)
  show ?thesis
    using dump
    by (simp add: handshake_inside getSysExDataSize_def dataAt_def keepDataFile_def
        newOB6_def)
qed

end
